theory Spec2Isabelle
  imports Main "HOL-Library.AList"
begin

section \<open>The project store service of \<^verbatim>\<open>src/backend/server.js\<close>\<close>

text \<open>
  The server keeps one JSON file, \<^verbatim>\<open>data/projects.json\<close>. Every route handler reads
  the whole file, works on the value in memory and, when it changes something, writes
  the whole value back. The handlers are modelled as functions from the state of the
  file to a response and the new state. What a handler takes from outside the program
  (the results of \<^verbatim>\<open>uuidv4()\<close> and of \<^verbatim>\<open>new Date().toISOString()\<close>, and whether
  \<^verbatim>\<open>fs.writeFileSync\<close> completes) is an explicit argument, so that nothing is assumed
  about it that a theorem does not state.
\<close>

subsection \<open>JSON values\<close>

text \<open>
  The values the program handles come from \<^verbatim>\<open>JSON.parse\<close> (the file, and the request
  body parsed by the body-parser middleware) and go back through \<^verbatim>\<open>JSON.stringify\<close>.
  A string is the list of the bytes of its UTF-8 encoding. The program never computes
  with numbers, it only carries them; they are integers here. An object is the list of
  its members in order; \<^verbatim>\<open>JSON.parse\<close> lets a later member of the text replace an
  earlier one of the same name, and so does \<open>get_prop\<close>.
\<close>

datatype json =
    JNull
  | JBool bool
  | JNum int
  | JStr string
  | JArr "json list"
  | JObj "(string \<times> json) list"

type_synonym object = "(string \<times> json) list"

definition get_prop :: "object \<Rightarrow> string \<Rightarrow> json option" where
  "get_prop kv k = map_of (rev kv) k"

text \<open>
  Object spread \<^verbatim>\<open>{...obj, ...src}\<close>: the members of \<open>src\<close> are assigned in order to
  the object built so far. An assignment to a name the object already has replaces the
  value where it stands, a new name goes to the end (\<open>AList.update\<close>).
\<close>

definition spread :: "object \<Rightarrow> object \<Rightarrow> object" where
  "spread obj src = foldl (\<lambda>acc (k, v). AList.update k v acc) obj src"

datatype exn = TypeError | SyntaxError | IOError

text \<open>
  \<^verbatim>\<open>p.id\<close>: reading a property of \<^verbatim>\<open>null\<close> throws a TypeError; an object gives its
  member or \<^verbatim>\<open>undefined\<close> (\<open>None\<close>); numbers, strings, booleans and arrays have no
  property of that name.
\<close>

fun get_id :: "json \<Rightarrow> exn + json option" where
  "get_id JNull = Inl TypeError"
| "get_id (JObj kv) = Inr (get_prop kv ''id'')"
| "get_id _ = Inr None"

text \<open>
  \<^verbatim>\<open>p.id === req.params.id\<close>: the route parameter is a string, so strict equality holds
  exactly when the property is a string with the same content.
\<close>

definition id_matches :: "string \<Rightarrow> json \<Rightarrow> exn + bool" where
  "id_matches rid p = (case get_id p of Inl e \<Rightarrow> Inl e | Inr v \<Rightarrow> Inr (v = Some (JStr rid)))"

text \<open>
  \<^verbatim>\<open>projects.find\<close>, \<^verbatim>\<open>projects.findIndex\<close>, \<^verbatim>\<open>projects.filter\<close> and \<^verbatim>\<open>projects.push\<close>
  exist only when the loaded value is an array; on any other value the call throws a
  TypeError (no loaded value carries a function).
\<close>

fun as_array :: "json \<Rightarrow> exn + json list" where
  "as_array (JArr ps) = Inr ps"
| "as_array _ = Inl TypeError"

text \<open>\<^verbatim>\<open>find\<close> and \<^verbatim>\<open>findIndex\<close> stop at the first match; \<^verbatim>\<open>filter\<close> visits every element.
  An exception of the callback ends the call.\<close>

fun find_by_id :: "string \<Rightarrow> json list \<Rightarrow> exn + json option" where
  "find_by_id rid [] = Inr None"
| "find_by_id rid (p # ps) =
     (case id_matches rid p of
        Inl e \<Rightarrow> Inl e
      | Inr True \<Rightarrow> Inr (Some p)
      | Inr False \<Rightarrow> find_by_id rid ps)"

text \<open>\<open>None\<close> is the result \<^verbatim>\<open>-1\<close>.\<close>

fun findIndex_by_id :: "string \<Rightarrow> json list \<Rightarrow> exn + nat option" where
  "findIndex_by_id rid [] = Inr None"
| "findIndex_by_id rid (p # ps) =
     (case id_matches rid p of
        Inl e \<Rightarrow> Inl e
      | Inr True \<Rightarrow> Inr (Some 0)
      | Inr False \<Rightarrow>
          (case findIndex_by_id rid ps of
             Inl e \<Rightarrow> Inl e
           | Inr None \<Rightarrow> Inr None
           | Inr (Some i) \<Rightarrow> Inr (Some (Suc i))))"

text \<open>\<^verbatim>\<open>projects.filter(p => p.id !== req.params.id)\<close>\<close>

fun filter_not_id :: "string \<Rightarrow> json list \<Rightarrow> exn + json list" where
  "filter_not_id rid [] = Inr []"
| "filter_not_id rid (p # ps) =
     (case id_matches rid p of
        Inl e \<Rightarrow> Inl e
      | Inr m \<Rightarrow>
          (case filter_not_id rid ps of
             Inl e \<Rightarrow> Inl e
           | Inr qs \<Rightarrow> Inr (if m then qs else p # qs)))"

text \<open>
  \<^verbatim>\<open>projects.length\<close> in \<^verbatim>\<open>initializeSampleData\<close>: \<^verbatim>\<open>null\<close> throws, an array and a
  string have a length, an object has one only as a member of that name.
\<close>

fun js_length :: "json \<Rightarrow> exn + json option" where
  "js_length JNull = Inl TypeError"
| "js_length (JArr ps) = Inr (Some (JNum (int (length ps))))"
| "js_length (JStr s) = Inr (Some (JNum (int (length s))))"
| "js_length (JObj kv) = Inr (get_prop kv ''length'')"
| "js_length _ = Inr None"

text \<open>
  The members an object spread copies from a value. The only value spread this way is
  the array element that \<^verbatim>\<open>findIndex\<close> matched, which is an object.
\<close>

fun members :: "json \<Rightarrow> object" where
  "members (JObj kv) = kv"
| "members _ = []"

subsection \<open>The strings of the source\<close>

text \<open>The messages, names and labels of the source are Russian; each is given by the bytes of
  its UTF-8 encoding, with a transliteration.\<close>

definition msg_not_found :: string where
  \<comment> \<open>Proekt ne naiden (project not found)\<close>
  "msg_not_found =
    [CHR 0xD0, CHR 0x9F, CHR 0xD1, CHR 0x80, CHR 0xD0, CHR 0xBE, CHR 0xD0, CHR 0xB5,
     CHR 0xD0, CHR 0xBA, CHR 0xD1, CHR 0x82, CHR 0x20, CHR 0xD0, CHR 0xBD, CHR 0xD0,
     CHR 0xB5, CHR 0x20, CHR 0xD0, CHR 0xBD, CHR 0xD0, CHR 0xB0, CHR 0xD0, CHR 0xB9,
     CHR 0xD0, CHR 0xB4, CHR 0xD0, CHR 0xB5, CHR 0xD0, CHR 0xBD]"

definition msg_load_project :: string where
  \<comment> \<open>Oshibka zagruzki proekta (error loading the project)\<close>
  "msg_load_project =
    [CHR 0xD0, CHR 0x9E, CHR 0xD1, CHR 0x88, CHR 0xD0, CHR 0xB8, CHR 0xD0, CHR 0xB1,
     CHR 0xD0, CHR 0xBA, CHR 0xD0, CHR 0xB0, CHR 0x20, CHR 0xD0, CHR 0xB7, CHR 0xD0,
     CHR 0xB0, CHR 0xD0, CHR 0xB3, CHR 0xD1, CHR 0x80, CHR 0xD1, CHR 0x83, CHR 0xD0,
     CHR 0xB7, CHR 0xD0, CHR 0xBA, CHR 0xD0, CHR 0xB8, CHR 0x20, CHR 0xD0, CHR 0xBF,
     CHR 0xD1, CHR 0x80, CHR 0xD0, CHR 0xBE, CHR 0xD0, CHR 0xB5, CHR 0xD0, CHR 0xBA,
     CHR 0xD1, CHR 0x82, CHR 0xD0, CHR 0xB0]"

definition msg_save_project :: string where
  \<comment> \<open>Oshibka sokhraneniya proekta (error saving the project)\<close>
  "msg_save_project =
    [CHR 0xD0, CHR 0x9E, CHR 0xD1, CHR 0x88, CHR 0xD0, CHR 0xB8, CHR 0xD0, CHR 0xB1,
     CHR 0xD0, CHR 0xBA, CHR 0xD0, CHR 0xB0, CHR 0x20, CHR 0xD1, CHR 0x81, CHR 0xD0,
     CHR 0xBE, CHR 0xD1, CHR 0x85, CHR 0xD1, CHR 0x80, CHR 0xD0, CHR 0xB0, CHR 0xD0,
     CHR 0xBD, CHR 0xD0, CHR 0xB5, CHR 0xD0, CHR 0xBD, CHR 0xD0, CHR 0xB8, CHR 0xD1,
     CHR 0x8F, CHR 0x20, CHR 0xD0, CHR 0xBF, CHR 0xD1, CHR 0x80, CHR 0xD0, CHR 0xBE,
     CHR 0xD0, CHR 0xB5, CHR 0xD0, CHR 0xBA, CHR 0xD1, CHR 0x82, CHR 0xD0, CHR 0xB0]"

definition msg_create_project :: string where
  \<comment> \<open>Oshibka sozdaniya proekta (error creating the project)\<close>
  "msg_create_project =
    [CHR 0xD0, CHR 0x9E, CHR 0xD1, CHR 0x88, CHR 0xD0, CHR 0xB8, CHR 0xD0, CHR 0xB1,
     CHR 0xD0, CHR 0xBA, CHR 0xD0, CHR 0xB0, CHR 0x20, CHR 0xD1, CHR 0x81, CHR 0xD0,
     CHR 0xBE, CHR 0xD0, CHR 0xB7, CHR 0xD0, CHR 0xB4, CHR 0xD0, CHR 0xB0, CHR 0xD0,
     CHR 0xBD, CHR 0xD0, CHR 0xB8, CHR 0xD1, CHR 0x8F, CHR 0x20, CHR 0xD0, CHR 0xBF,
     CHR 0xD1, CHR 0x80, CHR 0xD0, CHR 0xBE, CHR 0xD0, CHR 0xB5, CHR 0xD0, CHR 0xBA,
     CHR 0xD1, CHR 0x82, CHR 0xD0, CHR 0xB0]"

definition msg_update_project :: string where
  \<comment> \<open>Oshibka obnovleniya proekta (error updating the project)\<close>
  "msg_update_project =
    [CHR 0xD0, CHR 0x9E, CHR 0xD1, CHR 0x88, CHR 0xD0, CHR 0xB8, CHR 0xD0, CHR 0xB1,
     CHR 0xD0, CHR 0xBA, CHR 0xD0, CHR 0xB0, CHR 0x20, CHR 0xD0, CHR 0xBE, CHR 0xD0,
     CHR 0xB1, CHR 0xD0, CHR 0xBD, CHR 0xD0, CHR 0xBE, CHR 0xD0, CHR 0xB2, CHR 0xD0,
     CHR 0xBB, CHR 0xD0, CHR 0xB5, CHR 0xD0, CHR 0xBD, CHR 0xD0, CHR 0xB8, CHR 0xD1,
     CHR 0x8F, CHR 0x20, CHR 0xD0, CHR 0xBF, CHR 0xD1, CHR 0x80, CHR 0xD0, CHR 0xBE,
     CHR 0xD0, CHR 0xB5, CHR 0xD0, CHR 0xBA, CHR 0xD1, CHR 0x82, CHR 0xD0, CHR 0xB0]"

definition msg_delete_project :: string where
  \<comment> \<open>Oshibka udaleniya proekta (error deleting the project)\<close>
  "msg_delete_project =
    [CHR 0xD0, CHR 0x9E, CHR 0xD1, CHR 0x88, CHR 0xD0, CHR 0xB8, CHR 0xD0, CHR 0xB1,
     CHR 0xD0, CHR 0xBA, CHR 0xD0, CHR 0xB0, CHR 0x20, CHR 0xD1, CHR 0x83, CHR 0xD0,
     CHR 0xB4, CHR 0xD0, CHR 0xB0, CHR 0xD0, CHR 0xBB, CHR 0xD0, CHR 0xB5, CHR 0xD0,
     CHR 0xBD, CHR 0xD0, CHR 0xB8, CHR 0xD1, CHR 0x8F, CHR 0x20, CHR 0xD0, CHR 0xBF,
     CHR 0xD1, CHR 0x80, CHR 0xD0, CHR 0xBE, CHR 0xD0, CHR 0xB5, CHR 0xD0, CHR 0xBA,
     CHR 0xD1, CHR 0x82, CHR 0xD0, CHR 0xB0]"

definition msg_deleted :: string where
  \<comment> \<open>Proekt uspeshno udalen (project deleted successfully)\<close>
  "msg_deleted =
    [CHR 0xD0, CHR 0x9F, CHR 0xD1, CHR 0x80, CHR 0xD0, CHR 0xBE, CHR 0xD0, CHR 0xB5,
     CHR 0xD0, CHR 0xBA, CHR 0xD1, CHR 0x82, CHR 0x20, CHR 0xD1, CHR 0x83, CHR 0xD1,
     CHR 0x81, CHR 0xD0, CHR 0xBF, CHR 0xD0, CHR 0xB5, CHR 0xD1, CHR 0x88, CHR 0xD0,
     CHR 0xBD, CHR 0xD0, CHR 0xBE, CHR 0x20, CHR 0xD1, CHR 0x83, CHR 0xD0, CHR 0xB4,
     CHR 0xD0, CHR 0xB0, CHR 0xD0, CHR 0xBB, CHR 0xD0, CHR 0xB5, CHR 0xD0, CHR 0xBD]"

definition investment_score :: string where
  \<comment> \<open>investitsionnayaOtsenka (investment score), a property name\<close>
  "investment_score =
    [CHR 0xD0, CHR 0xB8, CHR 0xD0, CHR 0xBD, CHR 0xD0, CHR 0xB2, CHR 0xD0, CHR 0xB5,
     CHR 0xD1, CHR 0x81, CHR 0xD1, CHR 0x82, CHR 0xD0, CHR 0xB8, CHR 0xD1, CHR 0x86,
     CHR 0xD0, CHR 0xB8, CHR 0xD0, CHR 0xBE, CHR 0xD0, CHR 0xBD, CHR 0xD0, CHR 0xBD,
     CHR 0xD0, CHR 0xB0, CHR 0xD1, CHR 0x8F, CHR 0xD0, CHR 0x9E, CHR 0xD1, CHR 0x86,
     CHR 0xD0, CHR 0xB5, CHR 0xD0, CHR 0xBD, CHR 0xD0, CHR 0xBA, CHR 0xD0, CHR 0xB0]"

definition transport_score :: string where
  \<comment> \<open>transportnayaOtsenka (transport score), a property name\<close>
  "transport_score =
    [CHR 0xD1, CHR 0x82, CHR 0xD1, CHR 0x80, CHR 0xD0, CHR 0xB0, CHR 0xD0, CHR 0xBD,
     CHR 0xD1, CHR 0x81, CHR 0xD0, CHR 0xBF, CHR 0xD0, CHR 0xBE, CHR 0xD1, CHR 0x80,
     CHR 0xD1, CHR 0x82, CHR 0xD0, CHR 0xBD, CHR 0xD0, CHR 0xB0, CHR 0xD1, CHR 0x8F,
     CHR 0xD0, CHR 0x9E, CHR 0xD1, CHR 0x86, CHR 0xD0, CHR 0xB5, CHR 0xD0, CHR 0xBD,
     CHR 0xD0, CHR 0xBA, CHR 0xD0, CHR 0xB0]"

definition industry_transport :: string where
  \<comment> \<open>Transport\<close>
  "industry_transport =
    [CHR 0xD0, CHR 0xA2, CHR 0xD1, CHR 0x80, CHR 0xD0, CHR 0xB0, CHR 0xD0, CHR 0xBD,
     CHR 0xD1, CHR 0x81, CHR 0xD0, CHR 0xBF, CHR 0xD0, CHR 0xBE, CHR 0xD1, CHR 0x80,
     CHR 0xD1, CHR 0x82]"

definition name_mobility :: string where
  \<comment> \<open>Umnaya mobilnost (smart mobility)\<close>
  "name_mobility =
    [CHR 0xD0, CHR 0xA3, CHR 0xD0, CHR 0xBC, CHR 0xD0, CHR 0xBD, CHR 0xD0, CHR 0xB0,
     CHR 0xD1, CHR 0x8F, CHR 0x20, CHR 0xD0, CHR 0xBC, CHR 0xD0, CHR 0xBE, CHR 0xD0,
     CHR 0xB1, CHR 0xD0, CHR 0xB8, CHR 0xD0, CHR 0xBB, CHR 0xD1, CHR 0x8C, CHR 0xD0,
     CHR 0xBD, CHR 0xD0, CHR 0xBE, CHR 0xD1, CHR 0x81, CHR 0xD1, CHR 0x82, CHR 0xD1,
     CHR 0x8C]"

definition name_ticketing :: string where
  \<comment> \<open>Biletnaya sistema s II (ticketing system with AI)\<close>
  "name_ticketing =
    [CHR 0xD0, CHR 0x91, CHR 0xD0, CHR 0xB8, CHR 0xD0, CHR 0xBB, CHR 0xD0, CHR 0xB5,
     CHR 0xD1, CHR 0x82, CHR 0xD0, CHR 0xBD, CHR 0xD0, CHR 0xB0, CHR 0xD1, CHR 0x8F,
     CHR 0x20, CHR 0xD1, CHR 0x81, CHR 0xD0, CHR 0xB8, CHR 0xD1, CHR 0x81, CHR 0xD1,
     CHR 0x82, CHR 0xD0, CHR 0xB5, CHR 0xD0, CHR 0xBC, CHR 0xD0, CHR 0xB0, CHR 0x20,
     CHR 0xD1, CHR 0x81, CHR 0x20, CHR 0xD0, CHR 0x98, CHR 0xD0, CHR 0x98]"

definition name_parking :: string where
  \<comment> \<open>Ekologichnaya parkovka (ecological parking)\<close>
  "name_parking =
    [CHR 0xD0, CHR 0xAD, CHR 0xD0, CHR 0xBA, CHR 0xD0, CHR 0xBE, CHR 0xD0, CHR 0xBB,
     CHR 0xD0, CHR 0xBE, CHR 0xD0, CHR 0xB3, CHR 0xD0, CHR 0xB8, CHR 0xD1, CHR 0x87,
     CHR 0xD0, CHR 0xBD, CHR 0xD0, CHR 0xB0, CHR 0xD1, CHR 0x8F, CHR 0x20, CHR 0xD0,
     CHR 0xBF, CHR 0xD0, CHR 0xB0, CHR 0xD1, CHR 0x80, CHR 0xD0, CHR 0xBA, CHR 0xD0,
     CHR 0xBE, CHR 0xD0, CHR 0xB2, CHR 0xD0, CHR 0xBA, CHR 0xD0, CHR 0xB0]"

definition status_full :: string where
  \<comment> \<open>Rekomendovano k polnoi otsenke (recommended for full evaluation)\<close>
  "status_full =
    [CHR 0xD0, CHR 0xA0, CHR 0xD0, CHR 0xB5, CHR 0xD0, CHR 0xBA, CHR 0xD0, CHR 0xBE,
     CHR 0xD0, CHR 0xBC, CHR 0xD0, CHR 0xB5, CHR 0xD0, CHR 0xBD, CHR 0xD0, CHR 0xB4,
     CHR 0xD0, CHR 0xBE, CHR 0xD0, CHR 0xB2, CHR 0xD0, CHR 0xB0, CHR 0xD0, CHR 0xBD,
     CHR 0xD0, CHR 0xBE, CHR 0x20, CHR 0xD0, CHR 0xBA, CHR 0x20, CHR 0xD0, CHR 0xBF,
     CHR 0xD0, CHR 0xBE, CHR 0xD0, CHR 0xBB, CHR 0xD0, CHR 0xBD, CHR 0xD0, CHR 0xBE,
     CHR 0xD0, CHR 0xB9, CHR 0x20, CHR 0xD0, CHR 0xBE, CHR 0xD1, CHR 0x86, CHR 0xD0,
     CHR 0xB5, CHR 0xD0, CHR 0xBD, CHR 0xD0, CHR 0xBA, CHR 0xD0, CHR 0xB5]"

definition status_investment :: string where
  \<comment> \<open>Tolko investitsii (investment only)\<close>
  "status_investment =
    [CHR 0xD0, CHR 0xA2, CHR 0xD0, CHR 0xBE, CHR 0xD0, CHR 0xBB, CHR 0xD1, CHR 0x8C,
     CHR 0xD0, CHR 0xBA, CHR 0xD0, CHR 0xBE, CHR 0x20, CHR 0xD0, CHR 0xB8, CHR 0xD0,
     CHR 0xBD, CHR 0xD0, CHR 0xB2, CHR 0xD0, CHR 0xB5, CHR 0xD1, CHR 0x81, CHR 0xD1,
     CHR 0x82, CHR 0xD0, CHR 0xB8, CHR 0xD1, CHR 0x86, CHR 0xD0, CHR 0xB8, CHR 0xD0,
     CHR 0xB8]"

definition status_pilot :: string where
  \<comment> \<open>Tolko pilot (pilot only)\<close>
  "status_pilot =
    [CHR 0xD0, CHR 0xA2, CHR 0xD0, CHR 0xBE, CHR 0xD0, CHR 0xBB, CHR 0xD1, CHR 0x8C,
     CHR 0xD0, CHR 0xBA, CHR 0xD0, CHR 0xBE, CHR 0x20, CHR 0xD0, CHR 0xBF, CHR 0xD0,
     CHR 0xB8, CHR 0xD0, CHR 0xBB, CHR 0xD0, CHR 0xBE, CHR 0xD1, CHR 0x82]"
subsection \<open>The file and the outside world\<close>

text \<open>
  The states of \<^verbatim>\<open>data/projects.json\<close> that the program can tell apart: there is no
  file; there is one and \<^verbatim>\<open>fs.readFileSync\<close> throws; its text is not JSON, so
  \<^verbatim>\<open>JSON.parse\<close> throws; its text is the JSON of a value. A value written with
  \<^verbatim>\<open>JSON.stringify\<close> is read back by \<^verbatim>\<open>JSON.parse\<close> as the same value.
\<close>

datatype document = Missing | Unreadable | Malformed | Stored json

text \<open>\<^verbatim>\<open>fs.writeFileSync\<close> either completes or throws and leaves the file in some state.\<close>

datatype write_outcome = Completes | Throws document

text \<open>
  What one invocation gets from outside: \<open>uuidv4 e i\<close> is the result of its \<open>i\<close>-th call
  of \<^verbatim>\<open>uuidv4()\<close> (counted from 0), \<open>now e i\<close> the result of its \<open>i\<close>-th
  \<^verbatim>\<open>new Date().toISOString()\<close>, \<open>fs_write e\<close> what its call of \<^verbatim>\<open>fs.writeFileSync\<close>
  does.
\<close>

record env =
  uuidv4 :: "nat \<Rightarrow> string"
  now :: "nat \<Rightarrow> string"
  fs_write :: write_outcome

text \<open>The state: the file, and the values handed to \<^verbatim>\<open>fs.writeFileSync\<close> so far, oldest
  first.\<close>

record server =
  doc :: document
  written :: "json list"

record response =
  status :: nat
  payload :: json

definition error_response :: "nat \<Rightarrow> string \<Rightarrow> response" where
  "error_response code msg = \<lparr>status = code, payload = JObj [(''error'', JStr msg)]\<rparr>"

subsection \<open>Helper functions for file operations\<close>

definition existsSync :: "document \<Rightarrow> bool" where
  "existsSync d = (d \<noteq> Missing)"

text \<open>\<^verbatim>\<open>JSON.parse(fs.readFileSync(dataFilePath, 'utf8'))\<close>\<close>

fun read_and_parse :: "document \<Rightarrow> exn + json" where
  "read_and_parse Missing = Inl IOError"
| "read_and_parse Unreadable = Inl IOError"
| "read_and_parse Malformed = Inl SyntaxError"
| "read_and_parse (Stored v) = Inr v"

text \<open>The \<^verbatim>\<open>catch\<close> logs the exception and falls through to \<^verbatim>\<open>return []\<close>.\<close>

definition readProjects :: "document \<Rightarrow> json" where
  "readProjects d =
     (if existsSync d then
        (case read_and_parse d of Inr v \<Rightarrow> v | Inl e \<Rightarrow> JArr [])
      else JArr [])"

definition writeProjects :: "write_outcome \<Rightarrow> json \<Rightarrow> server \<Rightarrow> bool \<times> server" where
  "writeProjects w projects s =
     (case w of
        Completes \<Rightarrow> (True, \<lparr>doc = Stored projects, written = written s @ [projects]\<rparr>)
      | Throws d \<Rightarrow> (False, \<lparr>doc = d, written = written s @ [projects]\<rparr>))"

subsection \<open>Initialize with sample data if empty\<close>

definition sampleProjects :: "env \<Rightarrow> json list" where
  "sampleProjects e =
     [JObj [(''id'', JStr (uuidv4 e 0)),
            (''name'', JStr name_mobility),
            (''industry'', JStr industry_transport),
            (investment_score, JNum 68),
            (transport_score, JNum 8),
            (''status'', JStr status_full),
            (''createdAt'', JStr (now e 0)),
            (''updatedAt'', JStr (now e 1))],
      JObj [(''id'', JStr (uuidv4 e 1)),
            (''name'', JStr name_ticketing),
            (''industry'', JStr industry_transport),
            (investment_score, JNum 61),
            (transport_score, JNum 5),
            (''status'', JStr status_investment),
            (''createdAt'', JStr (now e 2)),
            (''updatedAt'', JStr (now e 3))],
      JObj [(''id'', JStr (uuidv4 e 2)),
            (''name'', JStr name_parking),
            (''industry'', JStr industry_transport),
            (investment_score, JNum 52),
            (transport_score, JNum 7),
            (''status'', JStr status_pilot),
            (''createdAt'', JStr (now e 4)),
            (''updatedAt'', JStr (now e 5))]]"

text \<open>
  Called once at startup, outside any \<^verbatim>\<open>try\<close>: an exception of \<^verbatim>\<open>projects.length\<close>
  ends the process (\<open>Inl\<close>). The result of \<^verbatim>\<open>writeProjects\<close> is not looked at.
\<close>

definition initializeSampleData :: "env \<Rightarrow> server \<Rightarrow> exn + server" where
  "initializeSampleData e s =
     (case js_length (readProjects (doc s)) of
        Inl x \<Rightarrow> Inl x
      | Inr n \<Rightarrow>
          if n = Some (JNum 0)
          then Inr (snd (writeProjects (fs_write e) (JArr (sampleProjects e)) s))
          else Inr s)"

subsection \<open>Routes\<close>

text \<open>\<^verbatim>\<open>GET /api/projects\<close>\<close>

definition get_projects :: "server \<Rightarrow> response \<times> server" where
  "get_projects s = (\<lparr>status = 200, payload = readProjects (doc s)\<rparr>, s)"

text \<open>\<^verbatim>\<open>GET /api/projects/:id\<close>\<close>

definition get_project :: "string \<Rightarrow> server \<Rightarrow> response \<times> server" where
  "get_project rid s =
     (case as_array (readProjects (doc s)) of
        Inl x \<Rightarrow> (error_response 500 msg_load_project, s)
      | Inr ps \<Rightarrow>
          (case find_by_id rid ps of
             Inl x \<Rightarrow> (error_response 500 msg_load_project, s)
           | Inr None \<Rightarrow> (error_response 404 msg_not_found, s)
           | Inr (Some p) \<Rightarrow> (\<lparr>status = 200, payload = p\<rparr>, s)))"

text \<open>\<^verbatim>\<open>POST /api/projects\<close>. The object literal is
  \<^verbatim>\<open>{ id: uuidv4(), ...req.body, createdAt: new Date().toISOString(), updatedAt: new Date().toISOString() }\<close>:
  the members of the body are assigned after \<open>id\<close> and before the two timestamps, which
  are two readings of the clock.\<close>

definition newProject :: "env \<Rightarrow> object \<Rightarrow> object" where
  "newProject e body =
     AList.update ''updatedAt'' (JStr (now e 1))
       (AList.update ''createdAt'' (JStr (now e 0))
          (spread [(''id'', JStr (uuidv4 e 0))] body))"

definition post_project :: "env \<Rightarrow> object \<Rightarrow> server \<Rightarrow> response \<times> server" where
  "post_project e body s =
     (case as_array (readProjects (doc s)) of
        Inl x \<Rightarrow> (error_response 500 msg_create_project, s)
      | Inr ps \<Rightarrow>
          (case writeProjects (fs_write e) (JArr (ps @ [JObj (newProject e body)])) s of
             (ok, s') \<Rightarrow>
               if ok then (\<lparr>status = 201, payload = JObj (newProject e body)\<rparr>, s')
               else (error_response 500 msg_save_project, s')))"

text \<open>\<^verbatim>\<open>PUT /api/projects/:id\<close>. The replacement is
  \<^verbatim>\<open>{ ...projects[projectIndex], ...req.body, updatedAt: new Date().toISOString() }\<close>.\<close>

definition merged :: "env \<Rightarrow> json \<Rightarrow> object \<Rightarrow> object" where
  "merged e p body =
     AList.update ''updatedAt'' (JStr (now e 0)) (spread (spread [] (members p)) body)"

definition put_project :: "env \<Rightarrow> string \<Rightarrow> object \<Rightarrow> server \<Rightarrow> response \<times> server" where
  "put_project e rid body s =
     (case as_array (readProjects (doc s)) of
        Inl x \<Rightarrow> (error_response 500 msg_update_project, s)
      | Inr ps \<Rightarrow>
          (case findIndex_by_id rid ps of
             Inl x \<Rightarrow> (error_response 500 msg_update_project, s)
           | Inr None \<Rightarrow> (error_response 404 msg_not_found, s)
           | Inr (Some i) \<Rightarrow>
               (case writeProjects (fs_write e)
                       (JArr (ps[i := JObj (merged e (ps ! i) body)])) s of
                  (ok, s') \<Rightarrow>
                    if ok
                    then (\<lparr>status = 200,
                           payload = ps[i := JObj (merged e (ps ! i) body)] ! i\<rparr>, s')
                    else (error_response 500 msg_update_project, s'))))"

text \<open>\<^verbatim>\<open>DELETE /api/projects/:id\<close>\<close>

definition delete_project :: "env \<Rightarrow> string \<Rightarrow> server \<Rightarrow> response \<times> server" where
  "delete_project e rid s =
     (case as_array (readProjects (doc s)) of
        Inl x \<Rightarrow> (error_response 500 msg_delete_project, s)
      | Inr ps \<Rightarrow>
          (case filter_not_id rid ps of
             Inl x \<Rightarrow> (error_response 500 msg_delete_project, s)
           | Inr filteredProjects \<Rightarrow>
               if length ps = length filteredProjects
               then (error_response 404 msg_not_found, s)
               else
                 (case writeProjects (fs_write e) (JArr filteredProjects) s of
                    (ok, s') \<Rightarrow>
                      if ok
                      then (\<lparr>status = 200,
                             payload = JObj [(''message'', JStr msg_deleted)]\<rparr>, s')
                      else (error_response 500 msg_delete_project, s'))))"

subsection \<open>Requests and runs\<close>

datatype request =
    GetProjects
  | GetProject string
  | PostProject object
  | PutProject string object
  | DeleteProject string

fun handle :: "env \<Rightarrow> request \<Rightarrow> server \<Rightarrow> response \<times> server" where
  "handle e GetProjects s = get_projects s"
| "handle e (GetProject rid) s = get_project rid s"
| "handle e (PostProject body) s = post_project e body s"
| "handle e (PutProject rid body) s = put_project e rid body s"
| "handle e (DeleteProject rid) s = delete_project e rid s"

text \<open>The requests are handled one after the other, each with what it gets from outside.\<close>

fun run :: "(env \<times> request) list \<Rightarrow> server \<Rightarrow> response list \<times> server" where
  "run [] s = ([], s)"
| "run ((e, r) # rest) s =
     (case handle e r s of
        (a, s') \<Rightarrow> (case run rest s' of (as, s'') \<Rightarrow> (a # as, s'')))"

subsection \<open>Notions used in the statements\<close>

text \<open>\<open>has_id rid p\<close>: the element \<open>p\<close> has an \<open>id\<close> that the route parameter \<open>rid\<close>
  matches.\<close>

definition has_id :: "string \<Rightarrow> json \<Rightarrow> bool" where
  "has_id rid p = (get_id p = Inr (Some (JStr rid)))"

text \<open>A fixed sequence of results for the successive calls of an invocation.\<close>

definition calls :: "string list \<Rightarrow> nat \<Rightarrow> string" where
  "calls results i = (if i < length results then results ! i else [])"

text \<open>The records that the create requests of a run build, in the order of the requests,
  and the ids that its delete requests name.\<close>

fun created :: "(env \<times> request) list \<Rightarrow> json list" where
  "created [] = []"
| "created ((e, PostProject body) # rest) = JObj (newProject e body) # created rest"
| "created (_ # rest) = created rest"

fun deleted :: "(env \<times> request) list \<Rightarrow> string list" where
  "deleted [] = []"
| "deleted ((e, DeleteProject rid) # rest) = rid # deleted rest"
| "deleted (_ # rest) = deleted rest"

fun create_or_delete :: "env \<times> request \<Rightarrow> bool" where
  "create_or_delete (e, PostProject body) = True"
| "create_or_delete (e, DeleteProject rid) = True"
| "create_or_delete _ = False"

definition successful :: "response \<Rightarrow> bool" where
  "successful a = (status a = 200 \<or> status a = 201)"

section \<open>Properties\<close>

subsection \<open>Objects\<close>

lemma get_prop_snoc: "get_prop (kv @ [(k', v)]) k = (if k = k' then Some v else get_prop kv k)"
  by (simp add: get_prop_def)

lemma spread_snoc: "spread obj (src @ [(k, v)]) = AList.update k v (spread obj src)"
  by (simp add: spread_def)

lemma spread_Nil: "spread obj [] = obj"
  by (simp add: spread_def)

lemma distinct_spread: "distinct (map fst obj) \<Longrightarrow> distinct (map fst (spread obj src))"
  by (induction src rule: rev_induct) (auto simp: spread_Nil spread_snoc AList.distinct_update)

lemma map_of_spread:
  "map_of (spread obj src) k = (if get_prop src k = None then map_of obj k else get_prop src k)"
proof (induction src rule: rev_induct)
  case Nil
  show ?case by (simp add: spread_Nil get_prop_def)
next
  case (snoc x src)
  obtain k' v where x: "x = (k', v)" by (cases x)
  show ?case
    using snoc by (simp add: x spread_snoc get_prop_snoc AList.update_conv')
qed

lemma get_prop_distinct: "distinct (map fst kv) \<Longrightarrow> get_prop kv k = map_of kv k"
  unfolding get_prop_def
  by (metis distinct_rev map_of_inject_set rev_map set_rev)

lemma get_prop_spread:
  assumes "distinct (map fst obj)"
  shows "get_prop (spread obj src) k =
           (if get_prop src k = None then get_prop obj k else get_prop src k)"
  using assms
  by (simp add: get_prop_distinct distinct_spread map_of_spread)

lemma get_prop_update:
  assumes "distinct (map fst kv)"
  shows "get_prop (AList.update k v kv) k' = (if k' = k then Some v else get_prop kv k')"
  using assms by (simp add: get_prop_distinct AList.distinct_update AList.update_conv')

lemma distinct_newProject_base: "distinct (map fst (spread [(''id'', u)] body))"
  by (rule distinct_spread) simp

lemma newProject_updatedAt: "get_prop (newProject e body) ''updatedAt'' = Some (JStr (now e 1))"
  by (simp add: newProject_def get_prop_update AList.distinct_update distinct_newProject_base)

lemma newProject_createdAt: "get_prop (newProject e body) ''createdAt'' = Some (JStr (now e 0))"
  by (simp add: newProject_def get_prop_update AList.distinct_update distinct_newProject_base)



lemma merged_updatedAt: "get_prop (merged e p body) ''updatedAt'' = Some (JStr (now e 0))"
  by (simp add: merged_def get_prop_update distinct_spread)

lemma merged_other:
  assumes "k \<noteq> ''updatedAt''"
  shows "get_prop (merged e (JObj kv) body) k =
     (if get_prop body k = None then get_prop kv k else get_prop body k)"
proof -
  have "get_prop [] k = None"
    by (simp add: get_prop_def)
  then have "get_prop (spread [] kv) k = get_prop kv k"
    by (simp add: get_prop_spread)
  then show ?thesis
    using assms by (simp add: merged_def get_prop_update distinct_spread get_prop_spread)
qed

subsection \<open>Searching the collection\<close>

lemma id_matches_has_id: "p \<noteq> JNull \<Longrightarrow> id_matches rid p = Inr (has_id rid p)"
  by (cases p) (simp_all add: id_matches_def has_id_def)

lemma find_by_id_absent:
  assumes "JNull \<notin> set ps" and "\<forall>p\<in>set ps. \<not> has_id rid p"
  shows "find_by_id rid ps = Inr None"
  using assms by (induction ps) (auto simp: id_matches_has_id)

lemma findIndex_by_id_absent:
  assumes "JNull \<notin> set ps" and "\<forall>p\<in>set ps. \<not> has_id rid p"
  shows "findIndex_by_id rid ps = Inr None"
  using assms by (induction ps) (auto simp: id_matches_has_id)

lemma filter_not_id_filter:
  assumes "JNull \<notin> set ps"
  shows "filter_not_id rid ps = Inr (filter (\<lambda>p. \<not> has_id rid p) ps)"
  using assms by (induction ps) (auto simp: id_matches_has_id)

lemma find_by_id_append:
  assumes "JNull \<notin> set ps" and "\<forall>p\<in>set ps. \<not> has_id rid p"
  shows "find_by_id rid (ps @ qs) = find_by_id rid qs"
  using assms by (induction ps) (auto simp: id_matches_has_id)

lemma id_matches_True: "id_matches rid p = Inr True \<Longrightarrow> has_id rid p"
  by (cases p) (auto simp: id_matches_def has_id_def)

lemma findIndex_by_id_found:
  assumes "findIndex_by_id rid ps = Inr (Some i)"
  shows "i < length ps \<and> has_id rid (ps ! i)"
  using assms
proof (induction ps arbitrary: i)
  case Nil
  then show ?case by simp
next
  case (Cons p ps)
  show ?case
  proof (cases "id_matches rid p")
    case (Inl x)
    with Cons.prems show ?thesis by simp
  next
    case (Inr m)
    show ?thesis
    proof (cases m)
      case True
      with Inr Cons.prems have "i = 0" by simp
      with True Inr show ?thesis by (simp add: id_matches_True)
    next
      case False
      with Inr Cons.prems obtain j where j: "findIndex_by_id rid ps = Inr (Some j)" "i = Suc j"
        by (auto split: sum.splits option.splits)
      with Cons.IH [of j] show ?thesis by simp
    qed
  qed
qed

lemma has_id_members: "has_id rid p \<Longrightarrow> p = JObj (members p)"
  by (cases p) (simp_all add: has_id_def)

subsection \<open>The handlers on their successful paths\<close>

lemma post_project_ok:
  assumes "readProjects (doc s) = JArr ps" and "fs_write e = Completes"
  shows "post_project e body s =
           (\<lparr>status = 201, payload = JObj (newProject e body)\<rparr>,
            \<lparr>doc = Stored (JArr (ps @ [JObj (newProject e body)])),
             written = written s @ [JArr (ps @ [JObj (newProject e body)])]\<rparr>)"
  using assms by (simp add: post_project_def writeProjects_def)

lemma put_project_ok:
  assumes "readProjects (doc s) = JArr ps" and "findIndex_by_id rid ps = Inr (Some i)"
    and "fs_write e = Completes"
  shows "put_project e rid body s =
           (\<lparr>status = 200, payload = JObj (merged e (ps ! i) body)\<rparr>,
            \<lparr>doc = Stored (JArr (ps[i := JObj (merged e (ps ! i) body)])),
             written = written s @ [JArr (ps[i := JObj (merged e (ps ! i) body)])]\<rparr>)"
  using assms findIndex_by_id_found [OF assms(2)]
  by (simp add: put_project_def writeProjects_def)

lemma length_filter_has_id:
  "(length ps = length (filter (\<lambda>p. \<not> has_id rid p) ps)) = (\<forall>p\<in>set ps. \<not> has_id rid p)"
  by (metis filter_True filter_id_conv length_filter_less less_irrefl_nat)

lemma delete_project_ok:
  assumes "readProjects (doc s) = JArr ps" and "JNull \<notin> set ps"
    and "\<exists>p\<in>set ps. has_id rid p" and "fs_write e = Completes"
  shows "delete_project e rid s =
           (\<lparr>status = 200, payload = JObj [(''message'', JStr msg_deleted)]\<rparr>,
            \<lparr>doc = Stored (JArr (filter (\<lambda>p. \<not> has_id rid p) ps)),
             written = written s @ [JArr (filter (\<lambda>p. \<not> has_id rid p) ps)]\<rparr>)"
proof -
  have "length ps \<noteq> length (filter (\<lambda>p. \<not> has_id rid p) ps)"
    using assms(3) by (simp add: length_filter_has_id)
  then show ?thesis
    using assms(1,2,4) by (simp add: delete_project_def writeProjects_def filter_not_id_filter)
qed

lemma not_found:
  assumes "readProjects (doc s) = JArr ps" and "JNull \<notin> set ps"
    and "\<forall>p\<in>set ps. \<not> has_id rid p"
  shows "get_project rid s = (error_response 404 msg_not_found, s)"
    and "put_project e rid body s = (error_response 404 msg_not_found, s)"
    and "delete_project e rid s = (error_response 404 msg_not_found, s)"
  using assms
  by (simp_all add: get_project_def put_project_def delete_project_def find_by_id_absent
      findIndex_by_id_absent filter_not_id_filter length_filter_has_id)

lemma merged_any:
  assumes "k \<noteq> ''updatedAt''"
  shows "get_prop (merged e p body) k =
     (if get_prop body k = None then get_prop (members p) k else get_prop body k)"
proof -
  have "get_prop [] k = None"
    by (simp add: get_prop_def)
  then have "get_prop (spread [] (members p)) k = get_prop (members p) k"
    by (simp add: get_prop_spread)
  then show ?thesis
    using assms by (simp add: merged_def get_prop_update distinct_spread get_prop_spread)
qed

subsection \<open>Reading the file\<close>

text \<open>
  C5. When the file is missing, cannot be read or cannot be parsed, \<open>readProjects\<close>
  returns the empty array. It returns a value in every state of the file: no exception
  reaches its caller.
\<close>

theorem readProjects_swallows_failures:
  assumes "d = Missing \<or> d = Unreadable \<or> d = Malformed"
  shows "readProjects d = JArr []"
  using assms by (auto simp: readProjects_def existsSync_def)

theorem readProjects_swallows_failures_witness:
  "readProjects Missing = JArr [] \<and> readProjects Unreadable = JArr []
     \<and> readProjects Malformed = JArr []"
  using readProjects_swallows_failures [of Missing] readProjects_swallows_failures [of Unreadable]
    readProjects_swallows_failures [of Malformed]
  by simp

subsection \<open>Creating a project\<close>




subsection \<open>Ids that are not in the collection\<close>

text \<open>
  C4. When the loaded collection is an array of records (no element is \<^verbatim>\<open>null\<close>) and
  none of them has the requested id, get by id, update and delete each answer 404 with
  an error message and leave the state as it was: the file is untouched and nothing was
  handed to \<^verbatim>\<open>fs.writeFileSync\<close>.
\<close>

theorem absent_id_not_found:
  assumes "readProjects (doc s) = JArr ps" and "JNull \<notin> set ps"
    and "\<forall>p\<in>set ps. \<not> has_id rid p"
  shows "get_project rid s
           = (\<lparr>status = 404, payload = JObj [(''error'', JStr msg_not_found)]\<rparr>, s)
    \<and> put_project e rid body s
           = (\<lparr>status = 404, payload = JObj [(''error'', JStr msg_not_found)]\<rparr>, s)
    \<and> delete_project e rid s
           = (\<lparr>status = 404, payload = JObj [(''error'', JStr msg_not_found)]\<rparr>, s)"
  using not_found [OF assms] by (simp add: error_response_def)

theorem absent_id_not_found_witness:
  "get_project ''missing''
       \<lparr>doc = Stored (JArr [JObj [(''id'', JStr ''a''), (''name'', JStr ''X'')]]), written = []\<rparr>
     = (\<lparr>status = 404, payload = JObj [(''error'', JStr msg_not_found)]\<rparr>,
        \<lparr>doc = Stored (JArr [JObj [(''id'', JStr ''a''), (''name'', JStr ''X'')]]), written = []\<rparr>)
   \<and> put_project \<lparr>uuidv4 = calls [], now = calls [''2026-01-01T00:00:00.000Z''],
                    fs_write = Completes\<rparr>
       ''missing'' [(''status'', JStr ''S'')]
       \<lparr>doc = Stored (JArr [JObj [(''id'', JStr ''a''), (''name'', JStr ''X'')]]), written = []\<rparr>
     = (\<lparr>status = 404, payload = JObj [(''error'', JStr msg_not_found)]\<rparr>,
        \<lparr>doc = Stored (JArr [JObj [(''id'', JStr ''a''), (''name'', JStr ''X'')]]), written = []\<rparr>)
   \<and> delete_project \<lparr>uuidv4 = calls [], now = calls [], fs_write = Completes\<rparr>
       ''missing''
       \<lparr>doc = Stored (JArr [JObj [(''id'', JStr ''a''), (''name'', JStr ''X'')]]), written = []\<rparr>
     = (\<lparr>status = 404, payload = JObj [(''error'', JStr msg_not_found)]\<rparr>,
        \<lparr>doc = Stored (JArr [JObj [(''id'', JStr ''a''), (''name'', JStr ''X'')]]), written = []\<rparr>)"
proof -
  let ?ps = "[JObj [(''id'', JStr ''a''), (''name'', JStr ''X'')]]"
  let ?s = "\<lparr>doc = Stored (JArr ?ps), written = []\<rparr>"
  have h1: "readProjects (doc ?s) = JArr ?ps" by code_simp
  have h2: "JNull \<notin> set ?ps" by simp
  have h3: "\<forall>p\<in>set ?ps. \<not> has_id ''missing'' p" by code_simp
  have a: "get_project ''missing'' ?s
      = (\<lparr>status = 404, payload = JObj [(''error'', JStr msg_not_found)]\<rparr>, ?s)"
    using absent_id_not_found [OF h1 h2 h3] by simp
  have b: "put_project \<lparr>uuidv4 = calls [], now = calls [''2026-01-01T00:00:00.000Z''],
                    fs_write = Completes\<rparr> ''missing'' [(''status'', JStr ''S'')] ?s
      = (\<lparr>status = 404, payload = JObj [(''error'', JStr msg_not_found)]\<rparr>, ?s)"
    using absent_id_not_found [OF h1 h2 h3] by simp
  have c: "delete_project \<lparr>uuidv4 = calls [], now = calls [], fs_write = Completes\<rparr>
       ''missing'' ?s
      = (\<lparr>status = 404, payload = JObj [(''error'', JStr msg_not_found)]\<rparr>, ?s)"
    using absent_id_not_found [OF h1 h2 h3] by simp
  from a b c show ?thesis by simp
qed

subsection \<open>Failed saves\<close>

text \<open>
  C8. \<open>writeProjects\<close> tells its caller of a failed write by the boolean it returns and
  in no other way. When the write of a create, update or delete request throws, the
  response is never a success response, and whenever the handler got as far as the
  write, it is status 500 with an error message.
\<close>

theorem failed_save_gives_500:
  assumes "fs_write e = Throws d"
    and "r = PostProject body \<or> r = PutProject rid body \<or> r = DeleteProject rid"
  shows "fst (writeProjects (fs_write e) v s) = False
    \<and> \<not> successful (fst (handle e r s))
    \<and> (written (snd (handle e r s)) \<noteq> written s
         \<longrightarrow> status (fst (handle e r s)) = 500
             \<and> (\<exists>m. payload (fst (handle e r s)) = JObj [(''error'', JStr m)]))"
proof -
  have w: "writeProjects (Throws d) x s = (False, \<lparr>doc = d, written = written s @ [x]\<rparr>)" for x
    by (simp add: writeProjects_def)
  have post: "?thesis" if "r = PostProject body"
    using that assms(1)
    by (auto simp: w post_project_def error_response_def successful_def split: sum.splits)
  have put: "?thesis" if "r = PutProject rid body"
    using that assms(1)
    by (auto simp: w put_project_def error_response_def successful_def
        split: sum.splits option.splits)
  have del: "?thesis" if "r = DeleteProject rid"
    using that assms(1)
    by (auto simp: w delete_project_def error_response_def successful_def split: sum.splits)
  from assms(2) post put del show ?thesis by blast
qed

theorem failed_save_gives_500_witness:
  "status (fst (handle \<lparr>uuidv4 = calls [], now = calls [], fs_write = Throws (Stored (JArr [JObj [(''id'', JStr ''a'')]]))\<rparr>
                  (DeleteProject ''a'')
                  \<lparr>doc = Stored (JArr [JObj [(''id'', JStr ''a'')]]), written = []\<rparr>)) = 500
   \<and> payload (fst (handle \<lparr>uuidv4 = calls [], now = calls [], fs_write = Throws (Stored (JArr [JObj [(''id'', JStr ''a'')]]))\<rparr>
                  (DeleteProject ''a'')
                  \<lparr>doc = Stored (JArr [JObj [(''id'', JStr ''a'')]]), written = []\<rparr>))
       = JObj [(''error'', JStr msg_delete_project)]
   \<and> written (snd (handle \<lparr>uuidv4 = calls [], now = calls [], fs_write = Throws (Stored (JArr [JObj [(''id'', JStr ''a'')]]))\<rparr>
                  (DeleteProject ''a'')
                  \<lparr>doc = Stored (JArr [JObj [(''id'', JStr ''a'')]]), written = []\<rparr>))
       = [JArr []]"
proof -
  let ?d = "Stored (JArr [JObj [(''id'', JStr ''a'')]])"
  let ?e = "\<lparr>uuidv4 = calls [], now = calls [], fs_write = Throws ?d\<rparr>"
  let ?s = "\<lparr>doc = ?d, written = []\<rparr>"
  have h1: "fs_write ?e = Throws ?d" by simp
  have h2: "DeleteProject ''a'' = PostProject [] \<or> DeleteProject ''a'' = PutProject ''a'' []
              \<or> DeleteProject ''a'' = DeleteProject ''a''" by simp
  have h3: "written (snd (handle ?e (DeleteProject ''a'') ?s)) = [JArr []]"
    by code_simp
  have h4: "payload (fst (handle ?e (DeleteProject ''a'') ?s))
              = JObj [(''error'', JStr msg_delete_project)]"
    by (simp add: delete_project_def readProjects_def existsSync_def id_matches_def
        get_prop_def writeProjects_def error_response_def)
  from failed_save_gives_500 [OF h1 h2, of "JArr []" ?s] h3 h4 show ?thesis
    by simp
qed

subsection \<open>Updating a project\<close>

text \<open>
  C10. On create, \<open>createdAt\<close> and \<open>updatedAt\<close> of the record that is returned and stored
  are the two readings of the clock, whatever the body holds under these names. On
  update, \<open>updatedAt\<close> of the record that is returned and stored is the reading of the
  clock, whatever the body holds, while a \<open>createdAt\<close> or an \<open>id\<close> of the body
  replaces the stored one.
\<close>

theorem server_timestamps_win:
  assumes "readProjects (doc s) = JArr ps" and "fs_write e = Completes"
  shows "post_project e body s =
           (\<lparr>status = 201, payload = JObj (newProject e body)\<rparr>,
            \<lparr>doc = Stored (JArr (ps @ [JObj (newProject e body)])),
             written = written s @ [JArr (ps @ [JObj (newProject e body)])]\<rparr>)
    \<and> get_prop (newProject e body) ''createdAt'' = Some (JStr (now e 0))
    \<and> get_prop (newProject e body) ''updatedAt'' = Some (JStr (now e 1))
    \<and> (findIndex_by_id rid ps = Inr (Some i) \<longrightarrow>
         put_project e rid body s =
           (\<lparr>status = 200, payload = JObj (merged e (ps ! i) body)\<rparr>,
            \<lparr>doc = Stored (JArr (ps[i := JObj (merged e (ps ! i) body)])),
             written = written s @ [JArr (ps[i := JObj (merged e (ps ! i) body)])]\<rparr>)
         \<and> get_prop (merged e (ps ! i) body) ''updatedAt'' = Some (JStr (now e 0))
         \<and> (get_prop body ''createdAt'' = Some c
               \<longrightarrow> get_prop (merged e (ps ! i) body) ''createdAt'' = Some c)
         \<and> (get_prop body ''id'' = Some c'
               \<longrightarrow> get_prop (merged e (ps ! i) body) ''id'' = Some c'))"
  using assms
  by (simp add: post_project_ok put_project_ok newProject_createdAt newProject_updatedAt
      merged_updatedAt merged_any)

theorem server_timestamps_win_witness:
  "fst (post_project
          \<lparr>uuidv4 = calls [''u1''], now = calls [''T1'', ''T2''], fs_write = Completes\<rparr>
          [(''createdAt'', JStr ''mine''), (''updatedAt'', JStr ''mine'')]
          \<lparr>doc = Stored (JArr [JObj [(''id'', JStr ''a''), (''createdAt'', JStr ''T0'')]]),
           written = []\<rparr>)
     = \<lparr>status = 201,
        payload = JObj [(''id'', JStr ''u1''), (''createdAt'', JStr ''T1''),
                        (''updatedAt'', JStr ''T2'')]\<rparr>
   \<and> fst (put_project
          \<lparr>uuidv4 = calls [''u1''], now = calls [''T1'', ''T2''], fs_write = Completes\<rparr>
          ''a''
          [(''createdAt'', JStr ''mine''), (''updatedAt'', JStr ''mine'')]
          \<lparr>doc = Stored (JArr [JObj [(''id'', JStr ''a''), (''createdAt'', JStr ''T0'')]]),
           written = []\<rparr>)
     = \<lparr>status = 200,
        payload = JObj [(''id'', JStr ''a''), (''createdAt'', JStr ''mine''),
                        (''updatedAt'', JStr ''T1'')]\<rparr>"
proof -
  let ?e = "\<lparr>uuidv4 = calls [''u1''], now = calls [''T1'', ''T2''], fs_write = Completes\<rparr>"
  let ?ps = "[JObj [(''id'', JStr ''a''), (''createdAt'', JStr ''T0'')]]"
  let ?s = "\<lparr>doc = Stored (JArr ?ps), written = []\<rparr>"
  let ?body = "[(''createdAt'', JStr ''mine''), (''updatedAt'', JStr ''mine'')]"
  have h1: "readProjects (doc ?s) = JArr ?ps" by code_simp
  have h2: "fs_write ?e = Completes" by simp
  have h3: "findIndex_by_id ''a'' ?ps = Inr (Some 0)" by code_simp
  have v1: "newProject ?e ?body = [(''id'', JStr ''u1''), (''createdAt'', JStr ''T1''),
                        (''updatedAt'', JStr ''T2'')]" by code_simp
  have v2: "merged ?e (?ps ! 0) ?body = [(''id'', JStr ''a''), (''createdAt'', JStr ''mine''),
                        (''updatedAt'', JStr ''T1'')]" by code_simp
  from server_timestamps_win [OF h1 h2, of ?body "''a''" 0] h3 v1 v2 show ?thesis
    by simp
qed

text \<open>
  C2, as the claim states it, fails in one point: \<open>updatedAt\<close> is set to the reading of
  the clock, which need not differ from the value the record had. Here a record is
  created and then updated within the same millisecond.
\<close>

theorem put_project_updatedAt_counterexample:
  "fst (post_project
          \<lparr>uuidv4 = calls [''3b241101-e2bb-4255-8caf-4136c566a962''],
           now = calls [''2026-01-01T00:00:00.000Z'', ''2026-01-01T00:00:00.000Z''],
           fs_write = Completes\<rparr>
          [(''name'', JStr ''X''), (''status'', JStr ''new'')]
          \<lparr>doc = Missing, written = []\<rparr>)
     = \<lparr>status = 201,
        payload = JObj [(''id'', JStr ''3b241101-e2bb-4255-8caf-4136c566a962''),
                        (''name'', JStr ''X''), (''status'', JStr ''new''),
                        (''createdAt'', JStr ''2026-01-01T00:00:00.000Z''),
                        (''updatedAt'', JStr ''2026-01-01T00:00:00.000Z'')]\<rparr>
   \<and> fst (put_project
          \<lparr>uuidv4 = calls [], now = calls [''2026-01-01T00:00:00.000Z''],
           fs_write = Completes\<rparr>
          ''3b241101-e2bb-4255-8caf-4136c566a962''
          [(''status'', JStr ''done'')]
          (snd (post_project
             \<lparr>uuidv4 = calls [''3b241101-e2bb-4255-8caf-4136c566a962''],
              now = calls [''2026-01-01T00:00:00.000Z'', ''2026-01-01T00:00:00.000Z''],
              fs_write = Completes\<rparr>
             [(''name'', JStr ''X''), (''status'', JStr ''new'')]
             \<lparr>doc = Missing, written = []\<rparr>)))
     = \<lparr>status = 200,
        payload = JObj [(''id'', JStr ''3b241101-e2bb-4255-8caf-4136c566a962''),
                        (''name'', JStr ''X''), (''status'', JStr ''done''),
                        (''createdAt'', JStr ''2026-01-01T00:00:00.000Z''),
                        (''updatedAt'', JStr ''2026-01-01T00:00:00.000Z'')]\<rparr>"
  by code_simp

text \<open>
  C2, amended. When the requested id is found at index \<open>i\<close> of the loaded collection and
  the write completes, an update whose body holds only \<open>status\<close> returns (status 200)
  and stores at index \<open>i\<close> a record that has every member of the existing record other
  than \<open>status\<close> and \<open>updatedAt\<close> unchanged (so \<open>name\<close>, \<open>industry\<close>, both scores,
  \<open>id\<close> and \<open>createdAt\<close>), whose \<open>status\<close> is that of the body and whose \<open>updatedAt\<close>
  is the reading of the clock; the collection keeps its length and every other element.
\<close>

theorem put_project_status_only:
  assumes "readProjects (doc s) = JArr ps" and "findIndex_by_id rid ps = Inr (Some i)"
    and "fs_write e = Completes"
  shows "fst (put_project e rid [(''status'', v)] s)
           = \<lparr>status = 200, payload = JObj (merged e (ps ! i) [(''status'', v)])\<rparr>
    \<and> doc (snd (put_project e rid [(''status'', v)] s))
           = Stored (JArr (ps[i := JObj (merged e (ps ! i) [(''status'', v)])]))
    \<and> i < length ps \<and> has_id rid (ps ! i) \<and> ps ! i = JObj (members (ps ! i))
    \<and> map (get_prop (merged e (ps ! i) [(''status'', v)]))
          [''name'', ''industry'', investment_score, transport_score, ''id'', ''createdAt'']
       = map (get_prop (members (ps ! i)))
          [''name'', ''industry'', investment_score, transport_score, ''id'', ''createdAt'']
    \<and> (\<forall>k. k \<noteq> ''status'' \<and> k \<noteq> ''updatedAt''
          \<longrightarrow> get_prop (merged e (ps ! i) [(''status'', v)]) k = get_prop (members (ps ! i)) k)
    \<and> get_prop (merged e (ps ! i) [(''status'', v)]) ''status'' = Some v
    \<and> get_prop (merged e (ps ! i) [(''status'', v)]) ''updatedAt'' = Some (JStr (now e 0))
    \<and> length (ps[i := JObj (merged e (ps ! i) [(''status'', v)])]) = length ps
    \<and> (\<forall>j. j < length ps \<and> j \<noteq> i
          \<longrightarrow> ps[i := JObj (merged e (ps ! i) [(''status'', v)])] ! j = ps ! j)"
proof -
  have body: "get_prop [(''status'', v)] k = (if k = ''status'' then Some v else None)" for k
    by (simp add: get_prop_def)
  have keep: "get_prop (merged e (ps ! i) [(''status'', v)]) k = get_prop (members (ps ! i)) k"
    if "k \<noteq> ''status''" and "k \<noteq> ''updatedAt''" for k
    using that by (simp add: merged_any body)
  have scores: "investment_score \<noteq> ''status''" "investment_score \<noteq> ''updatedAt''"
    "transport_score \<noteq> ''status''" "transport_score \<noteq> ''updatedAt''"
    by (simp_all add: investment_score_def transport_score_def)
  have found: "i < length ps \<and> has_id rid (ps ! i)"
    by (rule findIndex_by_id_found [OF assms(2)])
  then have obj: "ps ! i = JObj (members (ps ! i))"
    by (blast intro: has_id_members)
  have status: "get_prop (merged e (ps ! i) [(''status'', v)]) ''status'' = Some v"
    by (simp add: merged_any body)
  have rest: "fst (put_project e rid [(''status'', v)] s)
           = \<lparr>status = 200, payload = JObj (merged e (ps ! i) [(''status'', v)])\<rparr>
    \<and> doc (snd (put_project e rid [(''status'', v)] s))
           = Stored (JArr (ps[i := JObj (merged e (ps ! i) [(''status'', v)])]))"
    by (simp add: put_project_ok [OF assms])
  have others: "\<forall>j. j < length ps \<and> j \<noteq> i
          \<longrightarrow> ps[i := JObj (merged e (ps ! i) [(''status'', v)])] ! j = ps ! j"
    by simp
  have named: "map (get_prop (merged e (ps ! i) [(''status'', v)]))
          [''name'', ''industry'', investment_score, transport_score, ''id'', ''createdAt'']
       = map (get_prop (members (ps ! i)))
          [''name'', ''industry'', investment_score, transport_score, ''id'', ''createdAt'']"
    using scores by (simp add: keep)
  from rest found obj named keep status merged_updatedAt [of e "ps ! i" "[(''status'', v)]"]
    others
  show ?thesis
    by (intro conjI) (simp_all only: length_list_update, blast+)
qed

end
